theory Spec2Isabelle
  imports Complex_Main "HOL-Library.Word"
begin

section \<open>The SafeFood platform schema (src/src/i18n/index.ts, lines 20-208)\<close>

text \<open>
  The domain logic of the repository is one SQL migration: three enum types, seven
  tables, row level security (RLS) enabled on every table, and eleven policies.
  The embedding follows the migration statement by statement.

  A table is the list of its rows, a row is a record with one field per column.
  A column declared \<open>NOT NULL\<close> (or \<open>PRIMARY KEY\<close>) has the type of its values, every
  other column is an \<open>option\<close>, with \<open>None\<close> for SQL's \<open>NULL\<close>; a \<open>DEFAULT\<close> only
  fills in a column that an \<open>INSERT\<close> leaves out, so it does not make the column
  non-null. Column names are prefixed with a short table name, since the same
  names (\<open>id\<close>, \<open>user_id\<close>, \<open>created_at\<close>) occur in several tables.
\<close>

subsection \<open>Enum types (lines 39-41)\<close>

datatype user_role = admin | donor | charity | volunteer

datatype donation_status = pending | assigned | picked_up | delivered | cancelled

datatype food_type = prepared_meals | groceries | produce | bakery | other

datatype sql_error =
    InvalidEnumInput      \<comment> \<open>invalid input value for enum\<close>
  | RlsViolation          \<comment> \<open>new row violates row-level security policy\<close>
  | UniqueViolation       \<comment> \<open>duplicate key value violates the primary key\<close>
  | ForeignKeyViolation   \<comment> \<open>a \<open>REFERENCES\<close> constraint is violated\<close>
  | NumericOutOfRange     \<comment> \<open>integer out of range, numeric field overflow\<close>

text \<open>
  The labels of an enum type, in the order of its \<open>CREATE TYPE\<close>, and the input
  function of the type: a text that is one of the labels becomes the value, any
  other text is an error.
\<close>

definition donation_status_labels :: "(string \<times> donation_status) list" where
  "donation_status_labels =
     [(''pending'', pending), (''assigned'', assigned), (''picked_up'', picked_up),
      (''delivered'', delivered), (''cancelled'', cancelled)]"

definition food_type_labels :: "(string \<times> food_type) list" where
  "food_type_labels =
     [(''prepared_meals'', prepared_meals), (''groceries'', groceries),
      (''produce'', produce), (''bakery'', bakery), (''other'', other)]"

definition enum_in :: "(string \<times> 'a) list \<Rightarrow> string \<Rightarrow> sql_error + 'a" where
  "enum_in labels s =
     (case map_of labels s of None \<Rightarrow> Inl InvalidEnumInput | Some v \<Rightarrow> Inr v)"

definition donation_status_in :: "string \<Rightarrow> sql_error + donation_status" where
  "donation_status_in = enum_in donation_status_labels"

definition food_type_in :: "string \<Rightarrow> sql_error + food_type" where
  "food_type_in = enum_in food_type_labels"

subsection \<open>Numeric column types\<close>

text \<open>
  \<open>INTEGER\<close> is PostgreSQL's four-byte signed integer: a column holds 32 bits, read
  as a signed number (\<open>sint\<close>). A number enters the type through \<open>int4_in\<close>, which
  refuses what is out of range, and the sum of a column and a number is
  range-checked in the same way; \<open>NULL + x\<close> is \<open>NULL\<close>.
\<close>

type_synonym int4 = "32 word"

definition int4_in :: "int \<Rightarrow> sql_error + int4" where
  "int4_in i =
     (if - 2147483648 \<le> i \<and> i \<le> 2147483647 then Inr (word_of_int i)
      else Inl NumericOutOfRange)"

definition int4_plus :: "int4 option \<Rightarrow> int \<Rightarrow> sql_error + int4 option" where
  "int4_plus c x =
     (case c of
        None \<Rightarrow> Inr None
      | Some a \<Rightarrow> (case int4_in (sint a + x) of Inl e \<Rightarrow> Inl e | Inr b \<Rightarrow> Inr (Some b)))"

text \<open>
  \<open>DECIMAL(3,2)\<close> and \<open>DECIMAL(10,2)\<close> hold a whole number of hundredths, of at most
  three and at most ten digits. A number enters the type rounded to hundredths,
  halves away from zero, and is refused when it then has too many digits.
\<close>

typedef numeric_3_2 = "{k::int. - 1000 < k \<and> k < 1000}"
  morphisms hundredths_3_2 Numeric_3_2
  by (rule exI [of _ 0]) simp

typedef numeric_10_2 = "{k::int. - 10000000000 < k \<and> k < 10000000000}"
  morphisms hundredths_10_2 Numeric_10_2
  by (rule exI [of _ 0]) simp

definition round_hundredths :: "rat \<Rightarrow> int" where
  "round_hundredths v =
     (if 0 \<le> v then \<lfloor>v * 100 + 1 / 2\<rfloor> else - \<lfloor>- v * 100 + 1 / 2\<rfloor>)"

definition numeric_3_2_in :: "rat \<Rightarrow> sql_error + numeric_3_2" where
  "numeric_3_2_in v =
     (let k = round_hundredths v
      in if - 1000 < k \<and> k < 1000 then Inr (Numeric_3_2 k) else Inl NumericOutOfRange)"

definition numeric_10_2_in :: "rat \<Rightarrow> sql_error + numeric_10_2" where
  "numeric_10_2_in v =
     (let k = round_hundredths v
      in if - 10000000000 < k \<and> k < 10000000000 then Inr (Numeric_10_2 k)
         else Inl NumericOutOfRange)"

definition numeric_10_2_val :: "numeric_10_2 \<Rightarrow> rat" where
  "numeric_10_2_val d = of_int (hundredths_10_2 d) / 100"

definition numeric_10_2_plus :: "numeric_10_2 option \<Rightarrow> rat \<Rightarrow> sql_error + numeric_10_2 option" where
  "numeric_10_2_plus c x =
     (case c of
        None \<Rightarrow> Inr None
      | Some a \<Rightarrow>
          (case numeric_10_2_in (numeric_10_2_val a + x) of
             Inl e \<Rightarrow> Inl e
           | Inr b \<Rightarrow> Inr (Some b)))"

subsection \<open>Tables (lines 44-139)\<close>

type_synonym uuid = nat
type_synonym timestamptz = int
type_synonym date = int

record users_row =
  u_id :: uuid
  u_full_name :: string
  u_phone :: "string option"
  u_role :: user_role
  u_created_at :: "timestamptz option"
  u_updated_at :: "timestamptz option"

record organizations_row =
  org_id :: uuid
  org_user_id :: uuid
  org_name :: string
  org_type :: string
  org_address :: string
  org_latitude :: real
  org_longitude :: real
  org_contact_person :: string
  org_contact_phone :: string
  org_verified :: "bool option"
  org_created_at :: "timestamptz option"

record charities_row =
  ch_id :: uuid
  ch_user_id :: uuid
  ch_name :: string
  ch_registration_number :: string
  ch_address :: string
  ch_latitude :: real
  ch_longitude :: real
  ch_contact_person :: string
  ch_contact_phone :: string
  ch_verified :: "bool option"
  ch_created_at :: "timestamptz option"

record volunteers_row =
  vol_id :: uuid
  vol_user_id :: uuid
  vol_available :: "bool option"
  vol_latitude :: "real option"
  vol_longitude :: "real option"
  vol_last_active :: "timestamptz option"
  vol_total_pickups :: "int4 option"
  vol_rating :: "numeric_3_2 option"
  vol_created_at :: "timestamptz option"

record donations_row =
  don_id :: uuid
  don_organization_id :: uuid
  don_food_type :: food_type
  don_quantity :: int4
  don_description :: string
  don_expiry :: timestamptz
  don_pickup_window_start :: timestamptz
  don_pickup_window_end :: timestamptz
  don_status :: "donation_status option"
  don_temperature_requirements :: "string option"
  don_handling_instructions :: "string option"
  don_created_at :: "timestamptz option"
  don_updated_at :: "timestamptz option"

record pickups_row =
  pk_id :: uuid
  pk_donation_id :: uuid
  pk_charity_id :: "uuid option"
  pk_volunteer_id :: "uuid option"
  pk_assigned_at :: "timestamptz option"
  pk_picked_up_at :: "timestamptz option"
  pk_delivered_at :: "timestamptz option"
  pk_proof_of_pickup :: "string option"
  pk_proof_of_delivery :: "string option"
  pk_notes :: "string option"
  pk_rating :: "int4 option"
  pk_created_at :: "timestamptz option"

record impact_metrics_row =
  im_id :: uuid
  im_date :: date
  im_meals_saved :: "int4 option"
  im_kg_food_saved :: "numeric_10_2 option"
  im_co2_saved :: "numeric_10_2 option"
  im_beneficiaries_served :: "int4 option"
  im_created_at :: "timestamptz option"
  im_updated_at :: "timestamptz option"

text \<open>
  The database: the seven tables of the migration, and the ids of Supabase's
  \<open>auth.users\<close>, which \<open>users.id\<close> references (line 45).
\<close>

record database =
  auth_users :: "uuid list"
  users :: "users_row list"
  organizations :: "organizations_row list"
  charities :: "charities_row list"
  volunteers :: "volunteers_row list"
  donations :: "donations_row list"
  pickups :: "pickups_row list"
  impact_metrics :: "impact_metrics_row list"

subsection \<open>Principals\<close>

text \<open>
  The policies read the caller through Supabase's \<open>auth.uid()\<close> and \<open>auth.role()\<close>,
  which are not part of the repository. A request made with a user's session has
  the role \<open>authenticated\<close> and the user's id; a request made with the anonymous
  key has the role \<open>anon\<close> and no id (\<open>auth.uid()\<close> is \<open>NULL\<close>).
\<close>

datatype principal = Anon | Authenticated uuid

fun auth_uid :: "principal \<Rightarrow> uuid option" where
  "auth_uid Anon = None"
| "auth_uid (Authenticated x) = Some x"

fun auth_role :: "principal \<Rightarrow> string" where
  "auth_role Anon = ''anon''"
| "auth_role (Authenticated x) = ''authenticated''"

subsection \<open>Row level security (lines 142-208)\<close>

datatype command = SELECT | INSERT | UPDATE | DELETE

text \<open>
  A policy is declared for one command (\<open>FOR SELECT\<close>) or, with no \<open>FOR\<close> clause,
  for all of them (\<open>pol_for = None\<close>). Every policy of the migration has a
  \<open>USING\<close> expression only; PostgreSQL then uses it as the \<open>WITH CHECK\<close> expression
  too. All policies are permissive: a row passes when one applicable policy holds
  for it, and with RLS enabled a row that no policy admits is denied. An
  expression that evaluates to \<open>NULL\<close> does not admit the row.
\<close>

record 'r policy =
  pol_name :: string
  pol_for :: "command option"
  pol_using :: "principal \<Rightarrow> database \<Rightarrow> 'r \<Rightarrow> bool"

definition applies :: "'r policy \<Rightarrow> command \<Rightarrow> bool" where
  "applies pol cmd = (pol_for pol = None \<or> pol_for pol = Some cmd)"

definition permitted ::
  "'r policy list \<Rightarrow> command \<Rightarrow> principal \<Rightarrow> database \<Rightarrow> 'r \<Rightarrow> bool" where
  "permitted pols cmd p db r =
     list_ex (\<lambda>pol. applies pol cmd \<and> pol_using pol p db r) pols"

text \<open>
  A sub-\<open>SELECT\<close> inside a policy runs with the caller's privileges, so it sees
  the rows of its table that the table's own policies let the caller read.
\<close>

definition select_rows ::
  "'r policy list \<Rightarrow> principal \<Rightarrow> database \<Rightarrow> 'r list \<Rightarrow> 'r list" where
  "select_rows pols p db tbl = filter (permitted pols SELECT p db) tbl"

text \<open>Lines 153-154.\<close>

definition users_policies :: "users_row policy list" where
  "users_policies =
     [\<lparr>pol_name = ''Users can read own data'', pol_for = Some SELECT,
       pol_using = (\<lambda>p db r. auth_uid p = Some (u_id r))\<rparr>]"

text \<open>
  Lines 157-163. In \<open>SELECT user_id FROM users WHERE role = 'donor'\<close> the table
  \<open>users\<close> has no column \<open>user_id\<close>, so the name is the \<open>user_id\<close> of the
  \<open>organizations\<close> row under test: the sub-\<open>SELECT\<close> yields that value once for
  every row of \<open>users\<close> that the caller can read and whose role is \<open>donor\<close>.
  The policies of \<open>charities\<close> (lines 166-172) and \<open>volunteers\<close> (lines 175-181)
  have the same shape.
\<close>

definition organizations_policies :: "organizations_row policy list" where
  "organizations_policies =
     [\<lparr>pol_name = ''Organizations visible to authenticated users'',
       pol_for = Some SELECT,
       pol_using = (\<lambda>p db r. auth_role p = ''authenticated'')\<rparr>,
      \<lparr>pol_name = ''Organizations can manage their own data'', pol_for = None,
       pol_using = (\<lambda>p db r. auth_uid p \<in> set (map (\<lambda>u. Some (org_user_id r))
          (filter (\<lambda>u. u_role u = donor)
             (select_rows users_policies p db (users db)))))\<rparr>]"

definition charities_policies :: "charities_row policy list" where
  "charities_policies =
     [\<lparr>pol_name = ''Charities visible to authenticated users'',
       pol_for = Some SELECT,
       pol_using = (\<lambda>p db r. auth_role p = ''authenticated'')\<rparr>,
      \<lparr>pol_name = ''Charities can manage their own data'', pol_for = None,
       pol_using = (\<lambda>p db r. auth_uid p \<in> set (map (\<lambda>u. Some (ch_user_id r))
          (filter (\<lambda>u. u_role u = charity)
             (select_rows users_policies p db (users db)))))\<rparr>]"

definition volunteers_policies :: "volunteers_row policy list" where
  "volunteers_policies =
     [\<lparr>pol_name = ''Volunteers visible to authenticated users'',
       pol_for = Some SELECT,
       pol_using = (\<lambda>p db r. auth_role p = ''authenticated'')\<rparr>,
      \<lparr>pol_name = ''Volunteers can manage their own data'', pol_for = None,
       pol_using = (\<lambda>p db r. auth_uid p \<in> set (map (\<lambda>u. Some (vol_user_id r))
          (filter (\<lambda>u. u_role u = volunteer)
             (select_rows users_policies p db (users db)))))\<rparr>]"

text \<open>Lines 184-190.\<close>

definition donations_policies :: "donations_row policy list" where
  "donations_policies =
     [\<lparr>pol_name = ''Donations visible to authenticated users'',
       pol_for = Some SELECT,
       pol_using = (\<lambda>p db r. auth_role p = ''authenticated'')\<rparr>,
      \<lparr>pol_name = ''Organizations can manage their donations'', pol_for = None,
       pol_using = (\<lambda>p db r. don_organization_id r \<in> set (map org_id
          (filter (\<lambda>org. Some (org_user_id org) = auth_uid p)
             (select_rows organizations_policies p db (organizations db)))))\<rparr>]"

text \<open>
  Lines 193-204. \<open>volunteer_id\<close>, \<open>charity_id\<close> and \<open>donation_id\<close> are columns of
  the \<open>pickups\<close> row under test; the first two may be \<open>NULL\<close>, and \<open>id = NULL\<close>
  selects no row.
\<close>

definition pickups_policies :: "pickups_row policy list" where
  "pickups_policies =
     [\<lparr>pol_name = ''Pickups visible to relevant parties'', pol_for = Some SELECT,
       pol_using = (\<lambda>p db r. auth_uid p \<in> set (
          map (\<lambda>v. Some (vol_user_id v))
            (filter (\<lambda>v. Some (vol_id v) = pk_volunteer_id r)
               (select_rows volunteers_policies p db (volunteers db)))
          @ map (\<lambda>c. Some (ch_user_id c))
            (filter (\<lambda>c. Some (ch_id c) = pk_charity_id r)
               (select_rows charities_policies p db (charities db)))
          @ concat (map (\<lambda>org. map (\<lambda>d. Some (org_user_id org))
               (filter (\<lambda>d. don_organization_id d = org_id org \<and> don_id d = pk_donation_id r)
                  (select_rows donations_policies p db (donations db))))
               (select_rows organizations_policies p db (organizations db)))))\<rparr>]"

text \<open>Lines 207-208.\<close>

definition impact_metrics_policies :: "impact_metrics_row policy list" where
  "impact_metrics_policies =
     [\<lparr>pol_name = ''Impact metrics visible to authenticated users'',
       pol_for = Some SELECT,
       pol_using = (\<lambda>p db r. auth_role p = ''authenticated'')\<rparr>]"

subsection \<open>Statements\<close>

text \<open>
  The migration enables RLS with \<open>ENABLE ROW LEVEL SECURITY\<close> (lines 142-148),
  not \<open>FORCE\<close>: the policies bind the API roles (\<open>anon\<close>, \<open>authenticated\<close>), and a
  session of the table owner or of a role with \<open>BYPASSRLS\<close> (Supabase's service
  role) is checked against the constraints of the tables only.
\<close>

datatype session = RlsBypass | RlsSubject principal

fun passes ::
  "'r policy list \<Rightarrow> command \<Rightarrow> session \<Rightarrow> database \<Rightarrow> 'r \<Rightarrow> bool" where
  "passes pols cmd RlsBypass db r = True"
| "passes pols cmd (RlsSubject p) db r = permitted pols cmd p db r"

text \<open>
  \<open>INSERT\<close> of one row: the policies are checked on the new row before the row is
  stored, then the primary key.
\<close>

definition dml_insert ::
  "'r policy list \<Rightarrow> ('r \<Rightarrow> uuid) \<Rightarrow> session \<Rightarrow> database \<Rightarrow> 'r list \<Rightarrow> 'r
     \<Rightarrow> sql_error + 'r list" where
  "dml_insert pols key s db tbl new =
     (if \<not> passes pols INSERT s db new then Inl RlsViolation
      else if key new \<in> set (map key tbl) then Inl UniqueViolation
      else Inr (tbl @ [new]))"

text \<open>
  \<open>UPDATE t SET (every column) = new WHERE id = k\<close>. The statement reaches the
  rows with that id that the caller may read and update; a row it does not reach
  is left as it is, without an error. The new row is checked against the policies
  (an error when it fails), then against the primary key.
\<close>

definition dml_update ::
  "'r policy list \<Rightarrow> ('r \<Rightarrow> uuid) \<Rightarrow> session \<Rightarrow> database \<Rightarrow> 'r list \<Rightarrow> uuid \<Rightarrow> 'r
     \<Rightarrow> sql_error + 'r list" where
  "dml_update pols key s db tbl k new =
     (let hit = (\<lambda>r. key r = k \<and> passes pols SELECT s db r \<and> passes pols UPDATE s db r)
      in if \<not> list_ex hit tbl then Inr tbl
         else if \<not> passes pols UPDATE s db new then Inl RlsViolation
         else if key new \<noteq> k \<and> key new \<in> set (map key tbl) then Inl UniqueViolation
         else Inr (map (\<lambda>r. if hit r then new else r) tbl))"

text \<open>\<open>DELETE FROM t WHERE id = k\<close> removes the rows it reaches.\<close>

definition dml_delete ::
  "'r policy list \<Rightarrow> ('r \<Rightarrow> uuid) \<Rightarrow> session \<Rightarrow> database \<Rightarrow> 'r list \<Rightarrow> uuid
     \<Rightarrow> sql_error + 'r list" where
  "dml_delete pols key s db tbl k =
     Inr (filter (\<lambda>r. \<not> (key r = k \<and> passes pols SELECT s db r \<and> passes pols DELETE s db r)) tbl)"

text \<open>
  The \<open>REFERENCES\<close> constraints (lines 45, 56, 71, 86, 99, 116-118). They are
  checked at the end of a statement with the privileges of the table owner, on
  the whole tables; a \<open>NULL\<close> reference is accepted.
\<close>

definition ref_ok :: "uuid option \<Rightarrow> uuid list \<Rightarrow> bool" where
  "ref_ok x ids = (case x of None \<Rightarrow> True | Some k \<Rightarrow> k \<in> set ids)"

definition fk_ok :: "database \<Rightarrow> bool" where
  "fk_ok db =
     (list_all (\<lambda>r. u_id r \<in> set (auth_users db)) (users db) \<and>
      list_all (\<lambda>r. org_user_id r \<in> set (map u_id (users db))) (organizations db) \<and>
      list_all (\<lambda>r. ch_user_id r \<in> set (map u_id (users db))) (charities db) \<and>
      list_all (\<lambda>r. vol_user_id r \<in> set (map u_id (users db))) (volunteers db) \<and>
      list_all (\<lambda>r. don_organization_id r \<in> set (map org_id (organizations db)))
        (donations db) \<and>
      list_all (\<lambda>r. pk_donation_id r \<in> set (map don_id (donations db)) \<and>
                    ref_ok (pk_charity_id r) (map ch_id (charities db)) \<and>
                    ref_ok (pk_volunteer_id r) (map vol_id (volunteers db)))
        (pickups db))"

definition commit :: "sql_error + 't \<Rightarrow> ('t \<Rightarrow> database) \<Rightarrow> sql_error + database" where
  "commit res store =
     (case res of
        Inl e \<Rightarrow> Inl e
      | Inr tbl \<Rightarrow> if fk_ok (store tbl) then Inr (store tbl) else Inl ForeignKeyViolation)"

datatype statement =
    InsertUsers users_row | UpdateUsers uuid users_row | DeleteUsers uuid
  | InsertOrganizations organizations_row | UpdateOrganizations uuid organizations_row
  | DeleteOrganizations uuid
  | InsertCharities charities_row | UpdateCharities uuid charities_row
  | DeleteCharities uuid
  | InsertVolunteers volunteers_row | UpdateVolunteers uuid volunteers_row
  | DeleteVolunteers uuid
  | InsertDonations donations_row | UpdateDonations uuid donations_row
  | DeleteDonations uuid
  | InsertPickups pickups_row | UpdatePickups uuid pickups_row | DeletePickups uuid
  | InsertImpactMetrics impact_metrics_row | UpdateImpactMetrics uuid impact_metrics_row
  | DeleteImpactMetrics uuid

fun exec :: "session \<Rightarrow> statement \<Rightarrow> database \<Rightarrow> sql_error + database" where
  "exec s (InsertUsers r) db =
     commit (dml_insert users_policies u_id s db (users db) r) (\<lambda>t. db\<lparr>users := t\<rparr>)"
| "exec s (UpdateUsers k r) db =
     commit (dml_update users_policies u_id s db (users db) k r) (\<lambda>t. db\<lparr>users := t\<rparr>)"
| "exec s (DeleteUsers k) db =
     commit (dml_delete users_policies u_id s db (users db) k) (\<lambda>t. db\<lparr>users := t\<rparr>)"
| "exec s (InsertOrganizations r) db =
     commit (dml_insert organizations_policies org_id s db (organizations db) r)
       (\<lambda>t. db\<lparr>organizations := t\<rparr>)"
| "exec s (UpdateOrganizations k r) db =
     commit (dml_update organizations_policies org_id s db (organizations db) k r)
       (\<lambda>t. db\<lparr>organizations := t\<rparr>)"
| "exec s (DeleteOrganizations k) db =
     commit (dml_delete organizations_policies org_id s db (organizations db) k)
       (\<lambda>t. db\<lparr>organizations := t\<rparr>)"
| "exec s (InsertCharities r) db =
     commit (dml_insert charities_policies ch_id s db (charities db) r)
       (\<lambda>t. db\<lparr>charities := t\<rparr>)"
| "exec s (UpdateCharities k r) db =
     commit (dml_update charities_policies ch_id s db (charities db) k r)
       (\<lambda>t. db\<lparr>charities := t\<rparr>)"
| "exec s (DeleteCharities k) db =
     commit (dml_delete charities_policies ch_id s db (charities db) k)
       (\<lambda>t. db\<lparr>charities := t\<rparr>)"
| "exec s (InsertVolunteers r) db =
     commit (dml_insert volunteers_policies vol_id s db (volunteers db) r)
       (\<lambda>t. db\<lparr>volunteers := t\<rparr>)"
| "exec s (UpdateVolunteers k r) db =
     commit (dml_update volunteers_policies vol_id s db (volunteers db) k r)
       (\<lambda>t. db\<lparr>volunteers := t\<rparr>)"
| "exec s (DeleteVolunteers k) db =
     commit (dml_delete volunteers_policies vol_id s db (volunteers db) k)
       (\<lambda>t. db\<lparr>volunteers := t\<rparr>)"
| "exec s (InsertDonations r) db =
     commit (dml_insert donations_policies don_id s db (donations db) r)
       (\<lambda>t. db\<lparr>donations := t\<rparr>)"
| "exec s (UpdateDonations k r) db =
     commit (dml_update donations_policies don_id s db (donations db) k r)
       (\<lambda>t. db\<lparr>donations := t\<rparr>)"
| "exec s (DeleteDonations k) db =
     commit (dml_delete donations_policies don_id s db (donations db) k)
       (\<lambda>t. db\<lparr>donations := t\<rparr>)"
| "exec s (InsertPickups r) db =
     commit (dml_insert pickups_policies pk_id s db (pickups db) r)
       (\<lambda>t. db\<lparr>pickups := t\<rparr>)"
| "exec s (UpdatePickups k r) db =
     commit (dml_update pickups_policies pk_id s db (pickups db) k r)
       (\<lambda>t. db\<lparr>pickups := t\<rparr>)"
| "exec s (DeletePickups k) db =
     commit (dml_delete pickups_policies pk_id s db (pickups db) k)
       (\<lambda>t. db\<lparr>pickups := t\<rparr>)"
| "exec s (InsertImpactMetrics r) db =
     commit (dml_insert impact_metrics_policies im_id s db (impact_metrics db) r)
       (\<lambda>t. db\<lparr>impact_metrics := t\<rparr>)"
| "exec s (UpdateImpactMetrics k r) db =
     commit (dml_update impact_metrics_policies im_id s db (impact_metrics db) k r)
       (\<lambda>t. db\<lparr>impact_metrics := t\<rparr>)"
| "exec s (DeleteImpactMetrics k) db =
     commit (dml_delete impact_metrics_policies im_id s db (impact_metrics db) k)
       (\<lambda>t. db\<lparr>impact_metrics := t\<rparr>)"

text \<open>
  A history of the database: statements run one after the other, each in its own
  session; a statement that ends in an error changes nothing.
\<close>

definition step :: "database \<Rightarrow> session \<times> statement \<Rightarrow> database" where
  "step db c = (case exec (fst c) (snd c) db of Inl e \<Rightarrow> db | Inr db' \<Rightarrow> db')"

definition run :: "(session \<times> statement) list \<Rightarrow> database \<Rightarrow> database" where
  "run cs db = foldl step db cs"

text \<open>A history in which every session is subject to RLS.\<close>

definition as_subjects :: "(principal \<times> statement) list \<Rightarrow> (session \<times> statement) list" where
  "as_subjects cs = map (\<lambda>c. (RlsSubject (fst c), snd c)) cs"

text \<open>
  The row level checks of one write, as the three kinds of statement apply them:
  an \<open>INSERT\<close> checks the new row, a \<open>DELETE\<close> the existing row, an \<open>UPDATE\<close> both.
\<close>

definition can_insert :: "'r policy list \<Rightarrow> principal \<Rightarrow> database \<Rightarrow> 'r \<Rightarrow> bool" where
  "can_insert pols p db new = permitted pols INSERT p db new"

definition can_update :: "'r policy list \<Rightarrow> principal \<Rightarrow> database \<Rightarrow> 'r \<Rightarrow> 'r \<Rightarrow> bool" where
  "can_update pols p db old new =
     (permitted pols SELECT p db old \<and> permitted pols UPDATE p db old \<and>
      permitted pols UPDATE p db new)"

definition can_delete :: "'r policy list \<Rightarrow> principal \<Rightarrow> database \<Rightarrow> 'r \<Rightarrow> bool" where
  "can_delete pols p db old =
     (permitted pols SELECT p db old \<and> permitted pols DELETE p db old)"

text \<open>The users row of a principal, read from the table itself.\<close>

definition has_role :: "database \<Rightarrow> uuid \<Rightarrow> user_role \<Rightarrow> bool" where
  "has_role db x ro = list_ex (\<lambda>u. u_id u = x \<and> u_role u = ro) (users db)"

text \<open>
  The parties of a row, read from the tables: the User of the Organization that
  owns a Donation; the User of the Volunteer and of the Charity assigned to a
  Pickup, and the User of the Organization that owns the Pickup's Donation.
\<close>

definition owns_donation :: "database \<Rightarrow> uuid \<Rightarrow> donations_row \<Rightarrow> bool" where
  "owns_donation db x d =
     list_ex (\<lambda>org. org_id org = don_organization_id d \<and> org_user_id org = x)
       (organizations db)"

definition is_volunteer_of :: "database \<Rightarrow> uuid \<Rightarrow> pickups_row \<Rightarrow> bool" where
  "is_volunteer_of db x k =
     list_ex (\<lambda>v. Some (vol_id v) = pk_volunteer_id k \<and> vol_user_id v = x) (volunteers db)"

definition is_charity_of :: "database \<Rightarrow> uuid \<Rightarrow> pickups_row \<Rightarrow> bool" where
  "is_charity_of db x k =
     list_ex (\<lambda>c. Some (ch_id c) = pk_charity_id k \<and> ch_user_id c = x) (charities db)"

definition is_donor_of :: "database \<Rightarrow> uuid \<Rightarrow> pickups_row \<Rightarrow> bool" where
  "is_donor_of db x k =
     list_ex (\<lambda>d. don_id d = pk_donation_id k \<and> owns_donation db x d) (donations db)"

subsection \<open>The Impact Aggregator\<close>

text \<open>
  Modelled from the spec: the configuration of the Impact Aggregator (spec 4.5 and
  6), which is not in the repository's source. It holds "a configurable
  per-kg-to-meals conversion applied to the Donation's quantity", "a configurable
  emissions factor" and "a configurable per-donation estimate" of beneficiaries.
\<close>

record impact_config =
  meals_conversion :: "int \<Rightarrow> int"
  emissions_factor :: rat
  beneficiaries_estimate :: int

text \<open>
  Modelled from the spec: the increments of one delivery (spec 4.5), which are not
  in the repository's source: "increments \<open>meals_saved\<close> by a configurable
  per-kg-to-meals conversion applied to the Donation's quantity, increments
  \<open>kg_food_saved\<close> by quantity, increments \<open>co2_saved\<close> by quantity \<times> a configurable
  emissions factor, increments \<open>beneficiaries_served\<close> by a configurable
  per-donation estimate". The sums are those of the columns' types: a result out
  of range is an error, and a \<open>NULL\<close> column stays \<open>NULL\<close>.
\<close>

definition add_delivery ::
  "impact_config \<Rightarrow> donations_row \<Rightarrow> impact_metrics_row \<Rightarrow> sql_error + impact_metrics_row" where
  "add_delivery cfg d m =
     (let q = sint (don_quantity d) in
      case int4_plus (im_meals_saved m) (meals_conversion cfg q) of
        Inl e \<Rightarrow> Inl e
      | Inr meals \<Rightarrow>
      (case numeric_10_2_plus (im_kg_food_saved m) (of_int q) of
        Inl e \<Rightarrow> Inl e
      | Inr kg \<Rightarrow>
      (case numeric_10_2_plus (im_co2_saved m) (of_int q * emissions_factor cfg) of
        Inl e \<Rightarrow> Inl e
      | Inr co2 \<Rightarrow>
      (case int4_plus (im_beneficiaries_served m) (beneficiaries_estimate cfg) of
        Inl e \<Rightarrow> Inl e
      | Inr served \<Rightarrow>
          Inr (m\<lparr>im_meals_saved := meals, im_kg_food_saved := kg, im_co2_saved := co2,
                 im_beneficiaries_served := served\<rparr>)))))"

text \<open>
  Modelled from the spec: the row that the first delivery of a day starts from,
  which is not in the repository's source. Its counters are the columns'
  defaults (\<open>0\<close>), its timestamps the time of the insert (\<open>DEFAULT now()\<close>).
\<close>

definition new_metric :: "uuid \<Rightarrow> date \<Rightarrow> timestamptz \<Rightarrow> impact_metrics_row" where
  "new_metric i day now =
     \<lparr>im_id = i, im_date = day, im_meals_saved = Some 0,
      im_kg_food_saved = Some (Numeric_10_2 0), im_co2_saved = Some (Numeric_10_2 0),
      im_beneficiaries_served = Some 0, im_created_at = Some now, im_updated_at = Some now\<rparr>"

text \<open>
  Modelled from the spec: the upsert of the Impact Aggregator (spec 4.5), which is
  not in the repository's source: "On each \<open>confirmDelivery\<close>, upserts the
  ImpactMetric row for the current date". When the table holds a row of the
  date, that row is updated with the increments; otherwise a row of the date is
  inserted, under a new id. No policy lets a principal write \<open>impact_metrics\<close>, so
  the statement runs in a session that bypasses RLS.
\<close>

definition record_delivery ::
  "impact_config \<Rightarrow> date \<Rightarrow> uuid \<Rightarrow> timestamptz \<Rightarrow> donations_row \<Rightarrow> database
     \<Rightarrow> sql_error + database" where
  "record_delivery cfg today fresh now d db =
     (case find (\<lambda>m. im_date m = today) (impact_metrics db) of
        Some m \<Rightarrow>
          (case add_delivery cfg d m of
             Inl e \<Rightarrow> Inl e
           | Inr m' \<Rightarrow> exec RlsBypass (UpdateImpactMetrics (im_id m) m') db)
      | None \<Rightarrow>
          (case add_delivery cfg d (new_metric fresh today now) of
             Inl e \<Rightarrow> Inl e
           | Inr m' \<Rightarrow> exec RlsBypass (InsertImpactMetrics m') db))"

subsection \<open>A small database\<close>

text \<open>
  Five users (a donor, a charity, two volunteers and an admin), one organization,
  one charity, two volunteers, two donations of the organization (one assigned,
  one delivered) with one pickup each, and one day of impact metrics.
\<close>

definition ex_user :: "uuid \<Rightarrow> user_role \<Rightarrow> users_row" where
  "ex_user i ro =
     \<lparr>u_id = i, u_full_name = ''user'', u_phone = None, u_role = ro,
      u_created_at = Some 0, u_updated_at = Some 0\<rparr>"

definition ex_organization :: organizations_row where
  "ex_organization =
     \<lparr>org_id = 10, org_user_id = 1, org_name = ''restaurant'', org_type = ''restaurant'',
      org_address = ''street'', org_latitude = 0, org_longitude = 0,
      org_contact_person = ''donor'', org_contact_phone = ''1'',
      org_verified = Some False, org_created_at = Some 0\<rparr>"

definition ex_charity :: charities_row where
  "ex_charity =
     \<lparr>ch_id = 20, ch_user_id = 2, ch_name = ''kitchen'', ch_registration_number = ''7'',
      ch_address = ''square'', ch_latitude = 0, ch_longitude = 0,
      ch_contact_person = ''charity'', ch_contact_phone = ''2'',
      ch_verified = Some True, ch_created_at = Some 0\<rparr>"

definition ex_volunteer :: "uuid \<Rightarrow> uuid \<Rightarrow> volunteers_row" where
  "ex_volunteer i x =
     \<lparr>vol_id = i, vol_user_id = x, vol_available = Some False, vol_latitude = None,
      vol_longitude = None, vol_last_active = None, vol_total_pickups = Some 0,
      vol_rating = Some (Numeric_3_2 500), vol_created_at = Some 0\<rparr>"

definition ex_donation :: "uuid \<Rightarrow> donation_status \<Rightarrow> donations_row" where
  "ex_donation i st =
     \<lparr>don_id = i, don_organization_id = 10, don_food_type = produce, don_quantity = 10,
      don_description = ''vegetables'', don_expiry = 300, don_pickup_window_start = 100,
      don_pickup_window_end = 200, don_status = Some st,
      don_temperature_requirements = None, don_handling_instructions = None,
      don_created_at = Some 0, don_updated_at = Some 0\<rparr>"

definition ex_pickup :: "uuid \<Rightarrow> uuid \<Rightarrow> uuid \<Rightarrow> pickups_row" where
  "ex_pickup i d v =
     \<lparr>pk_id = i, pk_donation_id = d, pk_charity_id = Some 20, pk_volunteer_id = Some v,
      pk_assigned_at = Some 50, pk_picked_up_at = None, pk_delivered_at = None,
      pk_proof_of_pickup = None, pk_proof_of_delivery = None, pk_notes = None,
      pk_rating = None, pk_created_at = Some 50\<rparr>"

definition ex_metric :: "uuid \<Rightarrow> date \<Rightarrow> impact_metrics_row" where
  "ex_metric i day =
     \<lparr>im_id = i, im_date = day, im_meals_saved = Some 25, im_kg_food_saved = Some (Numeric_10_2 1000),
      im_co2_saved = Some (Numeric_10_2 400), im_beneficiaries_served = Some 5,
      im_created_at = Some 0, im_updated_at = Some 0\<rparr>"

definition ex_db :: database where
  "ex_db =
     \<lparr>auth_users = [1, 2, 3, 4, 9],
      users = [ex_user 1 donor, ex_user 2 charity, ex_user 3 volunteer,
               ex_user 4 volunteer, ex_user 9 admin],
      organizations = [ex_organization],
      charities = [ex_charity],
      volunteers = [ex_volunteer 30 3, ex_volunteer 31 4],
      donations = [ex_donation 40 assigned, ex_donation 41 delivered],
      pickups = [ex_pickup 50 40 30, ex_pickup 51 41 31],
      impact_metrics = [ex_metric 60 100]\<rparr>"

text \<open>
  A history that builds the small database from an empty one. Rows of \<open>users\<close>,
  \<open>pickups\<close> and \<open>impact_metrics\<close> are written by sessions that bypass RLS, since
  the policies let no principal write them; the profiles and the donations are
  written by their owners.
\<close>

definition empty_db :: database where
  "empty_db =
     \<lparr>auth_users = [1, 2, 3, 4, 9], users = [], organizations = [], charities = [],
      volunteers = [], donations = [], pickups = [], impact_metrics = []\<rparr>"

definition ex_history :: "(session \<times> statement) list" where
  "ex_history =
     [(RlsBypass, InsertUsers (ex_user 1 donor)),
      (RlsBypass, InsertUsers (ex_user 2 charity)),
      (RlsBypass, InsertUsers (ex_user 3 volunteer)),
      (RlsBypass, InsertUsers (ex_user 4 volunteer)),
      (RlsBypass, InsertUsers (ex_user 9 admin)),
      (RlsSubject (Authenticated 1), InsertOrganizations ex_organization),
      (RlsSubject (Authenticated 2), InsertCharities ex_charity),
      (RlsSubject (Authenticated 3), InsertVolunteers (ex_volunteer 30 3)),
      (RlsSubject (Authenticated 4), InsertVolunteers (ex_volunteer 31 4)),
      (RlsSubject (Authenticated 1), InsertDonations (ex_donation 40 pending)),
      (RlsSubject (Authenticated 1), InsertDonations (ex_donation 41 pending)),
      (RlsBypass, UpdateDonations 40 (ex_donation 40 assigned)),
      (RlsBypass, InsertPickups (ex_pickup 50 40 30)),
      (RlsBypass, UpdateDonations 41 (ex_donation 41 delivered)),
      (RlsBypass, InsertPickups (ex_pickup 51 41 31)),
      (RlsBypass, InsertImpactMetrics (ex_metric 60 100))]"

definition ex_config :: impact_config where
  "ex_config = \<lparr>meals_conversion = (\<lambda>kg. 2 * kg), emissions_factor = 2 / 5,
                 beneficiaries_estimate = 5\<rparr>"

lemmas ex_defs =
  ex_db_def ex_user_def ex_organization_def ex_charity_def ex_volunteer_def
  ex_donation_def ex_pickup_def ex_metric_def

section \<open>What the policies decide\<close>

lemma permitted_users:
  "permitted users_policies cmd p db r \<longleftrightarrow> cmd = SELECT \<and> auth_uid p = Some (u_id r)"
  by (auto simp: permitted_def users_policies_def applies_def)

lemma own_users_row:
  "set (select_rows users_policies p db (users db)) =
     {u \<in> set (users db). auth_uid p = Some (u_id u)}"
  by (auto simp: select_rows_def permitted_users)

lemma manage_using:
  "auth_uid p \<in> set (map (\<lambda>u. Some y)
       (filter (\<lambda>u. u_role u = ro) (select_rows users_policies p db (users db))))
   \<longleftrightarrow> p = Authenticated y \<and> has_role db y ro"
  by (cases p) (auto simp: own_users_row has_role_def list_ex_iff)

lemma permitted_organizations_write:
  "cmd \<noteq> SELECT \<Longrightarrow> permitted organizations_policies cmd p db r \<longleftrightarrow>
     p = Authenticated (org_user_id r) \<and> has_role db (org_user_id r) donor"
  by (simp add: permitted_def organizations_policies_def applies_def manage_using del: set_map set_filter)

lemma permitted_organizations_select:
  "permitted organizations_policies SELECT p db r \<longleftrightarrow> p \<noteq> Anon"
  by (cases p) (auto simp: permitted_def organizations_policies_def applies_def manage_using)

lemma permitted_charities_write:
  "cmd \<noteq> SELECT \<Longrightarrow> permitted charities_policies cmd p db r \<longleftrightarrow>
     p = Authenticated (ch_user_id r) \<and> has_role db (ch_user_id r) charity"
  by (simp add: permitted_def charities_policies_def applies_def manage_using del: set_map set_filter)

lemma permitted_charities_select:
  "permitted charities_policies SELECT p db r \<longleftrightarrow> p \<noteq> Anon"
  by (cases p) (auto simp: permitted_def charities_policies_def applies_def manage_using)

lemma permitted_volunteers_write:
  "cmd \<noteq> SELECT \<Longrightarrow> permitted volunteers_policies cmd p db r \<longleftrightarrow>
     p = Authenticated (vol_user_id r) \<and> has_role db (vol_user_id r) volunteer"
  by (simp add: permitted_def volunteers_policies_def applies_def manage_using del: set_map set_filter)

lemma permitted_volunteers_select:
  "permitted volunteers_policies SELECT p db r \<longleftrightarrow> p \<noteq> Anon"
  by (cases p) (auto simp: permitted_def volunteers_policies_def applies_def manage_using)

lemma select_rows_Authenticated:
  "select_rows organizations_policies (Authenticated x) db tbl = tbl"
  "select_rows charities_policies (Authenticated x) db tbl2 = tbl2"
  "select_rows volunteers_policies (Authenticated x) db tbl3 = tbl3"
  by (simp_all add: select_rows_def permitted_organizations_select
        permitted_charities_select permitted_volunteers_select)

lemma select_rows_Anon:
  "select_rows organizations_policies Anon db tbl = []"
  "select_rows charities_policies Anon db tbl2 = []"
  "select_rows volunteers_policies Anon db tbl3 = []"
  by (simp_all add: select_rows_def permitted_organizations_select
        permitted_charities_select permitted_volunteers_select)

lemma donations_using:
  "don_organization_id r \<in> set (map org_id
      (filter (\<lambda>org. Some (org_user_id org) = auth_uid p)
         (select_rows organizations_policies p db (organizations db))))
   \<longleftrightarrow> (\<exists>x. p = Authenticated x \<and> owns_donation db x r)"
  by (cases p) (force simp: select_rows_Authenticated select_rows_Anon owns_donation_def list_ex_iff image_iff)+

lemma permitted_donations_write:
  "cmd \<noteq> SELECT \<Longrightarrow> permitted donations_policies cmd p db r \<longleftrightarrow>
     (\<exists>x. p = Authenticated x \<and> owns_donation db x r)"
  by (simp add: permitted_def donations_policies_def applies_def donations_using del: set_map set_filter)

lemma permitted_donations_select:
  "permitted donations_policies SELECT p db r \<longleftrightarrow> p \<noteq> Anon"
  by (cases p) (auto simp: permitted_def donations_policies_def applies_def donations_using simp del: set_map set_filter)

lemma select_donations:
  "select_rows donations_policies (Authenticated x) db tbl = tbl"
  "select_rows donations_policies Anon db tbl = []"
  by (simp_all add: select_rows_def permitted_donations_select)

lemma volunteer_part:
  "Some x \<in> set (map (\<lambda>v. Some (vol_user_id v))
       (filter (\<lambda>v. Some (vol_id v) = pk_volunteer_id k) (volunteers db)))
   \<longleftrightarrow> is_volunteer_of db x k"
  by (force simp: is_volunteer_of_def list_ex_iff image_iff)

lemma charity_part:
  "Some x \<in> set (map (\<lambda>c. Some (ch_user_id c))
       (filter (\<lambda>c. Some (ch_id c) = pk_charity_id k) (charities db)))
   \<longleftrightarrow> is_charity_of db x k"
  by (force simp: is_charity_of_def list_ex_iff image_iff)

lemma donor_part:
  "Some x \<in> set (concat (map (\<lambda>org. map (\<lambda>d. Some (org_user_id org))
       (filter (\<lambda>d. don_organization_id d = org_id org \<and> don_id d = pk_donation_id k)
          (donations db))) (organizations db)))
   \<longleftrightarrow> is_donor_of db x k"
  by (force simp: is_donor_of_def owns_donation_def list_ex_iff image_iff)

lemma permitted_pickups:
  "permitted pickups_policies cmd p db k \<longleftrightarrow>
     cmd = SELECT \<and> (\<exists>x. p = Authenticated x \<and>
        (is_volunteer_of db x k \<or> is_charity_of db x k \<or> is_donor_of db x k))"
proof (cases p)
  case Anon
  then show ?thesis
    by (simp add: permitted_def pickups_policies_def applies_def select_rows_Anon select_donations)
next
  case (Authenticated x)
  have "auth_uid p \<in> set (
          map (\<lambda>v. Some (vol_user_id v))
            (filter (\<lambda>v. Some (vol_id v) = pk_volunteer_id k) (volunteers db))
          @ map (\<lambda>c. Some (ch_user_id c))
            (filter (\<lambda>c. Some (ch_id c) = pk_charity_id k) (charities db))
          @ concat (map (\<lambda>org. map (\<lambda>d. Some (org_user_id org))
               (filter (\<lambda>d. don_organization_id d = org_id org \<and> don_id d = pk_donation_id k)
                  (donations db))) (organizations db)))
        \<longleftrightarrow> is_volunteer_of db x k \<or> is_charity_of db x k \<or> is_donor_of db x k"
    unfolding set_append Un_iff Authenticated auth_uid.simps
    by (simp only: volunteer_part charity_part donor_part)
  with Authenticated show ?thesis
    by (auto simp add: permitted_def pickups_policies_def applies_def select_rows_Authenticated
          select_donations simp del: set_append set_map set_filter set_concat)
qed

lemma permitted_impact_metrics:
  "permitted impact_metrics_policies cmd p db r \<longleftrightarrow> cmd = SELECT \<and> p \<noteq> Anon"
  by (cases p) (auto simp: permitted_def impact_metrics_policies_def applies_def)

section \<open>What the statements leave unchanged\<close>

lemma insert_denied:
  "\<not> permitted pols INSERT p db r \<Longrightarrow>
     dml_insert pols key (RlsSubject p) db tbl r = Inl RlsViolation"
  by (simp add: dml_insert_def)

lemma update_reaches_nothing:
  "(\<And>r. \<not> permitted pols UPDATE p db r) \<Longrightarrow>
     dml_update pols key (RlsSubject p) db tbl k new = Inr tbl"
  by (simp add: dml_update_def list_ex_iff)

lemma delete_reaches_nothing:
  "(\<And>r. \<not> permitted pols DELETE p db r) \<Longrightarrow>
     dml_delete pols key (RlsSubject p) db tbl k = Inr tbl"
  by (simp add: dml_delete_def)

lemma step_users: "users (step db (RlsSubject p, st)) = users db"
  by (cases st)
    (simp_all add: step_def commit_def insert_denied update_reaches_nothing
       delete_reaches_nothing permitted_users split: sum.splits)

lemma step_pickups: "pickups (step db (RlsSubject p, st)) = pickups db"
  by (cases st)
    (simp_all add: step_def commit_def insert_denied update_reaches_nothing
       delete_reaches_nothing permitted_pickups split: sum.splits)

lemma step_impact_metrics: "impact_metrics (step db (RlsSubject p, st)) = impact_metrics db"
  by (cases st)
    (simp_all add: step_def commit_def insert_denied update_reaches_nothing
       delete_reaches_nothing permitted_impact_metrics split: sum.splits)

lemma run_users: "users (run (as_subjects cs) db) = users db"
  by (induction cs arbitrary: db) (simp_all add: run_def as_subjects_def step_users)

lemma run_pickups: "pickups (run (as_subjects cs) db) = pickups db"
  by (induction cs arbitrary: db) (simp_all add: run_def as_subjects_def step_pickups)

lemma run_impact_metrics: "impact_metrics (run (as_subjects cs) db) = impact_metrics db"
  by (induction cs arbitrary: db) (simp_all add: run_def as_subjects_def step_impact_metrics)

section \<open>The small database\<close>

lemma fk_ok_ex_db: "fk_ok ex_db"
  by (simp add: fk_ok_def ref_ok_def ex_defs)

lemma ex_db_reachable: "run ex_history empty_db = ex_db"
  by (simp add: run_def step_def ex_history_def empty_db_def dml_insert_def dml_update_def
        commit_def fk_ok_def ref_ok_def permitted_def applies_def select_rows_def
        users_policies_def organizations_policies_def charities_policies_def
        volunteers_policies_def donations_policies_def ex_defs del: set_filter)

lemma run_snoc: "run (cs @ [c]) db = step (run cs db) c"
  by (simp add: run_def)

section \<open>Updating a donation\<close>

lemma same_key_same_row:
  "distinct (map key tbl) \<Longrightarrow> r \<in> set tbl \<Longrightarrow> d \<in> set tbl \<Longrightarrow> key r = key d \<Longrightarrow> r = d"
  by (meson distinct_map inj_on_eq_iff)

lemma owns_donation_status:
  "owns_donation db x (d\<lparr>don_status := s\<rparr>) = owns_donation db x d"
  by (simp add: owns_donation_def)

lemma fk_ok_donations_update:
  assumes "fk_ok db" and "d \<in> set (donations db)"
    and "don_id new = don_id d" and "don_organization_id new = don_organization_id d"
  shows "fk_ok (db\<lparr>donations :=
           map (\<lambda>r. if don_id r = don_id d then new else r) (donations db)\<rparr>)"
proof -
  have ids: "map don_id (map (\<lambda>r. if don_id r = don_id d then new else r) (donations db))
               = map don_id (donations db)"
    using assms(3) by (induction "donations db") auto
  have "don_organization_id d \<in> set (map org_id (organizations db))"
    using assms(1,2) by (auto simp: fk_ok_def list_all_iff)
  then have "list_all (\<lambda>r. don_organization_id r \<in> set (map org_id (organizations db)))
               (map (\<lambda>r. if don_id r = don_id d then new else r) (donations db))"
    using assms(1,4) by (auto simp: fk_ok_def list_all_iff)
  with assms(1) ids show ?thesis
    unfolding fk_ok_def by simp
qed

section \<open>Recording a delivery\<close>

lemma floor_divide_numeral_rat:
  "\<lfloor>numeral a / numeral b :: rat\<rfloor> = numeral a div numeral b"
  by (metis floor_divide_of_int_eq of_int_numeral)

lemma add_delivery_keys:
  "add_delivery cfg d m = Inr m' \<Longrightarrow> im_id m' = im_id m \<and> im_date m' = im_date m"
  by (auto simp: add_delivery_def Let_def split: sum.splits)

lemma bypass_update_metrics:
  assumes "exec RlsBypass (UpdateImpactMetrics k m') db = Inr db'"
    and "k \<in> set (map im_id (impact_metrics db))" and "im_id m' = k"
  shows "impact_metrics db' = map (\<lambda>r. if im_id r = k then m' else r) (impact_metrics db)"
proof -
  have "list_ex (\<lambda>r. im_id r = k) (impact_metrics db)"
    using assms(2) by (auto simp: list_ex_iff)
  with assms(1,3) show ?thesis
    by (auto simp: dml_update_def commit_def split: if_splits)
qed

lemma bypass_insert_metrics:
  assumes "exec RlsBypass (InsertImpactMetrics m') db = Inr db'"
  shows "impact_metrics db' = impact_metrics db @ [m'] \<and>
         im_id m' \<notin> set (map im_id (impact_metrics db))"
  using assms by (auto simp: dml_insert_def commit_def split: if_splits)

lemma replace_row_keeps:
  assumes "distinct (map key tbl)" and "m \<in> set tbl" and "key m' = key m" and "f m' = f m"
  shows "map f (map (\<lambda>r. if key r = key m then m' else r) tbl) = map f tbl"
proof -
  have "r = m" if "r \<in> set tbl" "key r = key m" for r
    using same_key_same_row [OF assms(1) that(1) assms(2) that(2)] .
  then show ?thesis
    using assms(4) by (auto intro!: map_cong)
qed

lemma replace_row_others:
  assumes "distinct (map key tbl)" and "m \<in> set tbl" and "P m" and "P m'"
  shows "filter (\<lambda>r. \<not> P r) (map (\<lambda>r. if key r = key m then m' else r) tbl)
           = filter (\<lambda>r. \<not> P r) tbl"
proof -
  have eq: "r = m" if "r \<in> set tbl" "key r = key m" for r
    using same_key_same_row [OF assms(1) that(1) assms(2) that(2)] .
  show ?thesis
    unfolding filter_map
    using eq assms(3,4)
    by (induction tbl) (auto simp: comp_def)
qed

lemma record_delivery_new_date:
  "record_delivery ex_config 101 61 900 (ex_donation 41 delivered) ex_db
     = Inr (ex_db\<lparr>impact_metrics :=
         [ex_metric 60 100,
          \<lparr>im_id = 61, im_date = 101, im_meals_saved = Some 20,
            im_kg_food_saved = Some (Numeric_10_2 1000),
            im_co2_saved = Some (Numeric_10_2 400),
            im_beneficiaries_served = Some 5, im_created_at = Some 900,
            im_updated_at = Some 900\<rparr>]\<rparr>)"
  by (simp add: record_delivery_def add_delivery_def new_metric_def ex_config_def int4_plus_def
        int4_in_def numeric_10_2_plus_def numeric_10_2_in_def numeric_10_2_val_def
        round_hundredths_def Numeric_10_2_inverse floor_divide_numeral_rat dml_insert_def
        commit_def fk_ok_def ref_ok_def ex_defs)

lemma fk_ok_impact_metrics: "fk_ok (db\<lparr>impact_metrics := t\<rparr>) = fk_ok db"
  by (simp add: fk_ok_def)

lemma find_unique:
  assumes "distinct (map key tbl)" and "m \<in> set tbl"
  shows "find (\<lambda>r. key r = key m) tbl = Some m"
proof -
  have "find (\<lambda>r. key r = key m) tbl \<noteq> None"
    using assms(2) by (auto simp: find_None_iff)
  then obtain m0 where f: "find (\<lambda>r. key r = key m) tbl = Some m0"
    by blast
  then have "m0 \<in> set tbl" "key m0 = key m"
    by (auto simp: find_Some_iff)
  then have "m0 = m"
    using same_key_same_row [OF assms(1) _ assms(2)] by blast
  with f show ?thesis by simp
qed

lemma record_delivery_updates:
  assumes dates: "distinct (map im_date (impact_metrics db))"
    and ids: "distinct (map im_id (impact_metrics db))"
    and fk: "fk_ok db" and m: "m \<in> set (impact_metrics db)" "im_date m = today"
    and add: "add_delivery cfg d m = Inr m'"
  shows "record_delivery cfg today fresh now d db
           = Inr (db\<lparr>impact_metrics :=
               map (\<lambda>r. if im_date r = today then m' else r) (impact_metrics db)\<rparr>)"
proof -
  let ?tbl = "impact_metrics db"
  have found: "find (\<lambda>r. im_date r = today) ?tbl = Some m"
    using find_unique [OF dates m(1)] m(2) by simp
  have keys: "im_id m' = im_id m"
    using add_delivery_keys [OF add] by simp
  have same: "im_id r = im_id m \<longleftrightarrow> im_date r = today" if "r \<in> set ?tbl" for r
    using same_key_same_row [OF ids that m(1)] same_key_same_row [OF dates that m(1)] m(2)
    by auto
  then have tbl: "map (\<lambda>r. if im_id r = im_id m then m' else r) ?tbl
                = map (\<lambda>r. if im_date r = today then m' else r) ?tbl"
    by (intro map_cong) auto
  have ex: "list_ex (\<lambda>r. im_id r = im_id m) ?tbl"
    using m(1) by (auto simp: list_ex_iff)
  have "exec RlsBypass (UpdateImpactMetrics (im_id m) m') db
          = Inr (db\<lparr>impact_metrics := map (\<lambda>r. if im_date r = today then m' else r) ?tbl\<rparr>)"
    using ex keys fk tbl by (simp add: dml_update_def commit_def fk_ok_impact_metrics)
  then show ?thesis
    by (simp add: record_delivery_def found add)
qed

lemma record_delivery_keeps_dates:
  assumes dates: "distinct (map im_date (impact_metrics db))"
    and ids: "distinct (map im_id (impact_metrics db))"
    and ok: "record_delivery cfg today fresh now d db = Inr db'"
  shows "distinct (map im_date (impact_metrics db')) \<and>
         distinct (map im_id (impact_metrics db')) \<and>
         filter (\<lambda>m. im_date m \<noteq> today) (impact_metrics db')
           = filter (\<lambda>m. im_date m \<noteq> today) (impact_metrics db) \<and>
         (if today \<in> set (map im_date (impact_metrics db))
          then map im_date (impact_metrics db') = map im_date (impact_metrics db) \<and>
               map im_id (impact_metrics db') = map im_id (impact_metrics db)
          else map im_date (impact_metrics db') = map im_date (impact_metrics db) @ [today] \<and>
               map im_id (impact_metrics db') = map im_id (impact_metrics db) @ [fresh])"
proof -
  let ?tbl = "impact_metrics db"
  show ?thesis
  proof (cases "find (\<lambda>m. im_date m = today) ?tbl")
    case None
    then have absent: "today \<notin> set (map im_date ?tbl)"
      by (auto simp: find_None_iff)
    from ok None obtain m' where
      add: "add_delivery cfg d (new_metric fresh today now) = Inr m'" and
      ins: "exec RlsBypass (InsertImpactMetrics m') db = Inr db'"
      by (auto simp: record_delivery_def split: sum.splits)
    from add_delivery_keys [OF add] have keys: "im_id m' = fresh" "im_date m' = today"
      by (simp_all add: new_metric_def)
    from bypass_insert_metrics [OF ins] keys have
      tbl: "impact_metrics db' = ?tbl @ [m']" and new: "fresh \<notin> set (map im_id ?tbl)"
      by simp_all
    show ?thesis
      using dates ids absent new keys by (simp add: tbl)
  next
    case (Some m)
    then have m: "m \<in> set ?tbl" "im_date m = today"
      by (auto simp: find_Some_iff)
    then have present: "today \<in> set (map im_date ?tbl)"
      by force
    from ok Some obtain m' where
      add: "add_delivery cfg d m = Inr m'" and
      upd: "exec RlsBypass (UpdateImpactMetrics (im_id m) m') db = Inr db'"
      by (auto simp: record_delivery_def split: sum.splits)
    from add_delivery_keys [OF add] have keys: "im_id m' = im_id m" "im_date m' = im_date m"
      by simp_all
    have "im_id m \<in> set (map im_id ?tbl)"
      using m(1) by simp
    from bypass_update_metrics [OF upd this keys(1)] have
      tbl: "impact_metrics db' = map (\<lambda>r. if im_id r = im_id m then m' else r) ?tbl" .
    have same_dates: "map im_date (impact_metrics db') = map im_date ?tbl"
      unfolding tbl by (rule replace_row_keeps [OF ids m(1) keys])
    have same_ids: "map im_id (impact_metrics db') = map im_id ?tbl"
      unfolding tbl by (rule replace_row_keeps [OF ids m(1) keys(1) keys(1)])
    have others: "filter (\<lambda>r. \<not> im_date r = today) (impact_metrics db')
                    = filter (\<lambda>r. \<not> im_date r = today) ?tbl"
      unfolding tbl
      by (rule replace_row_others [OF ids m(1)]) (simp_all add: keys m(2))
    show ?thesis
      using dates ids present same_dates same_ids others by simp
  qed
qed

section \<open>The primary keys\<close>

lemma insert_duplicate_key:
  "passes pols INSERT s db new \<Longrightarrow> key new \<in> set (map key tbl) \<Longrightarrow>
     dml_insert pols key s db tbl new = Inl UniqueViolation"
  by (simp add: dml_insert_def)

lemma insert_duplicate_key_example:
  "exec RlsBypass (InsertPickups (ex_pickup 50 41 31)) ex_db = Inl UniqueViolation \<and>
   exec RlsBypass (InsertImpactMetrics (ex_metric 60 101)) ex_db = Inl UniqueViolation"
  by (simp add: insert_duplicate_key commit_def ex_defs)

section \<open>The claims\<close>

text \<open>
  Claim C1, as amended. A write of an Organization, Charity or Volunteer profile
  row by a principal passes the policies exactly when the principal is the
  authenticated User named in the row's \<open>user_id\<close> and that User's role is the one
  of the table (\<open>donor\<close>, \<open>charity\<close>, \<open>volunteer\<close>); for an \<open>UPDATE\<close> the new row
  must name the same User. The role \<open>admin\<close> is granted nothing.
\<close>

theorem profile_write_owner_with_role:
  "(can_insert organizations_policies p db e \<longleftrightarrow>
      p = Authenticated (org_user_id e) \<and> has_role db (org_user_id e) donor) \<and>
   (can_update organizations_policies p db e e' \<longleftrightarrow>
      p = Authenticated (org_user_id e) \<and> org_user_id e' = org_user_id e \<and>
      has_role db (org_user_id e) donor) \<and>
   (can_delete organizations_policies p db e \<longleftrightarrow>
      p = Authenticated (org_user_id e) \<and> has_role db (org_user_id e) donor) \<and>
   (can_insert charities_policies p db c \<longleftrightarrow>
      p = Authenticated (ch_user_id c) \<and> has_role db (ch_user_id c) charity) \<and>
   (can_update charities_policies p db c c' \<longleftrightarrow>
      p = Authenticated (ch_user_id c) \<and> ch_user_id c' = ch_user_id c \<and>
      has_role db (ch_user_id c) charity) \<and>
   (can_delete charities_policies p db c \<longleftrightarrow>
      p = Authenticated (ch_user_id c) \<and> has_role db (ch_user_id c) charity) \<and>
   (can_insert volunteers_policies p db v \<longleftrightarrow>
      p = Authenticated (vol_user_id v) \<and> has_role db (vol_user_id v) volunteer) \<and>
   (can_update volunteers_policies p db v v' \<longleftrightarrow>
      p = Authenticated (vol_user_id v) \<and> vol_user_id v' = vol_user_id v \<and>
      has_role db (vol_user_id v) volunteer) \<and>
   (can_delete volunteers_policies p db v \<longleftrightarrow>
      p = Authenticated (vol_user_id v) \<and> has_role db (vol_user_id v) volunteer)"
  by (auto simp: can_insert_def can_update_def can_delete_def
        permitted_organizations_write permitted_organizations_select
        permitted_charities_write permitted_charities_select
        permitted_volunteers_write permitted_volunteers_select)

theorem profile_write_owner_with_role_witness:
  "can_update organizations_policies (Authenticated 1) ex_db ex_organization
     (ex_organization\<lparr>org_name := ''cafe''\<rparr>) \<and>
   \<not> can_update organizations_policies (Authenticated 1) ex_db ex_organization
     (ex_organization\<lparr>org_user_id := 2\<rparr>) \<and>
   \<not> can_delete charities_policies (Authenticated 3) ex_db ex_charity \<and>
   can_insert volunteers_policies (Authenticated 4) ex_db (ex_volunteer 32 4)"
  using profile_write_owner_with_role [where p = "Authenticated 1" and db = ex_db
      and e = ex_organization and e' = "ex_organization\<lparr>org_name := ''cafe''\<rparr>"]
    profile_write_owner_with_role [where p = "Authenticated 1" and db = ex_db
      and e = ex_organization and e' = "ex_organization\<lparr>org_user_id := 2\<rparr>"]
    profile_write_owner_with_role [where p = "Authenticated 3" and db = ex_db
      and c = ex_charity]
    profile_write_owner_with_role [where p = "Authenticated 4" and db = ex_db
      and v = "ex_volunteer 32 4"]
  by (simp add: has_role_def ex_defs)

text \<open>
  C1 as stated fails: user 9 is an admin, and every write of the organization of
  user 1 by user 9 is denied.
\<close>

theorem admin_profile_write_counterexample:
  "has_role ex_db 9 admin \<and>
   \<not> can_insert organizations_policies (Authenticated 9) ex_db (ex_organization\<lparr>org_id := 11\<rparr>) \<and>
   \<not> can_update organizations_policies (Authenticated 9) ex_db ex_organization
       (ex_organization\<lparr>org_verified := Some True\<rparr>) \<and>
   \<not> can_delete organizations_policies (Authenticated 9) ex_db ex_organization"
  by (simp add: has_role_def can_insert_def can_update_def can_delete_def permitted_def
        organizations_policies_def users_policies_def select_rows_def applies_def ex_defs del: set_filter)

text \<open>
  Claim C2, as amended. No write of a Pickup row by a principal passes the
  policies: \<open>pickups\<close> has RLS enabled and a \<open>SELECT\<close> policy only. Whatever
  statements principals run, the table \<open>pickups\<close> stays as it was; its rows are
  written by sessions that bypass RLS.
\<close>

theorem pickup_write_denied:
  "\<not> can_insert pickups_policies p db k \<and>
   \<not> can_update pickups_policies p db k k' \<and>
   \<not> can_delete pickups_policies p db k \<and>
   pickups (run (as_subjects cs) db) = pickups db"
  by (simp add: can_insert_def can_update_def can_delete_def permitted_pickups run_pickups)

theorem pickup_write_denied_witness:
  "\<not> can_update pickups_policies (Authenticated 9) ex_db (ex_pickup 50 40 30)
       (ex_pickup 50 40 31) \<and>
   pickups (run (as_subjects
       [(Authenticated 3, UpdatePickups 50 ((ex_pickup 50 40 30)\<lparr>pk_picked_up_at := Some 60\<rparr>)),
        (Authenticated 2, DeletePickups 50),
        (Authenticated 9, InsertPickups (ex_pickup 52 40 31))]) ex_db)
     = [ex_pickup 50 40 30, ex_pickup 51 41 31]"
  using pickup_write_denied [where p = "Authenticated 9" and db = ex_db
      and k = "ex_pickup 50 40 30" and k' = "ex_pickup 50 40 31" and cs =
       "[(Authenticated 3, UpdatePickups 50 ((ex_pickup 50 40 30)\<lparr>pk_picked_up_at := Some 60\<rparr>)),
        (Authenticated 2, DeletePickups 50),
        (Authenticated 9, InsertPickups (ex_pickup 52 40 31))]"]
  by (simp add: ex_db_def)

text \<open>
  C2 as stated fails: user 3 is the User of the Volunteer assigned to pickup 50
  and user 2 the User of its Charity, and their writes are denied.
\<close>

theorem assigned_volunteer_pickup_write_counterexample:
  "is_volunteer_of ex_db 3 (ex_pickup 50 40 30) \<and>
   is_charity_of ex_db 2 (ex_pickup 50 40 30) \<and>
   \<not> can_update pickups_policies (Authenticated 3) ex_db (ex_pickup 50 40 30)
       ((ex_pickup 50 40 30)\<lparr>pk_picked_up_at := Some 60\<rparr>) \<and>
   \<not> can_delete pickups_policies (Authenticated 2) ex_db (ex_pickup 50 40 30) \<and>
   exec (RlsSubject (Authenticated 3))
     (InsertPickups (ex_pickup 52 40 30)) ex_db = Inl RlsViolation"
  by (simp add: is_volunteer_of_def is_charity_of_def can_update_def can_delete_def
        permitted_def pickups_policies_def applies_def dml_insert_def commit_def ex_defs)

text \<open>
  Claim C3, as amended. A Pickup row can be read by a principal exactly when the
  principal is the authenticated User of the Volunteer assigned to it, of the
  Charity assigned to it, or of the Organization that owns its Donation. The
  role \<open>admin\<close> is granted nothing.
\<close>

theorem pickup_read_parties:
  "permitted pickups_policies SELECT p db k \<longleftrightarrow>
     (\<exists>x. p = Authenticated x \<and>
        (is_volunteer_of db x k \<or> is_charity_of db x k \<or> is_donor_of db x k))"
  by (simp add: permitted_pickups)

theorem pickup_read_parties_witness:
  "permitted pickups_policies SELECT (Authenticated 3) ex_db (ex_pickup 50 40 30) \<and>
   permitted pickups_policies SELECT (Authenticated 2) ex_db (ex_pickup 50 40 30) \<and>
   permitted pickups_policies SELECT (Authenticated 1) ex_db (ex_pickup 50 40 30) \<and>
   \<not> permitted pickups_policies SELECT (Authenticated 4) ex_db (ex_pickup 50 40 30) \<and>
   \<not> permitted pickups_policies SELECT Anon ex_db (ex_pickup 50 40 30)"
  using pickup_read_parties [of "Authenticated 3" ex_db "ex_pickup 50 40 30"]
    pickup_read_parties [of "Authenticated 2" ex_db "ex_pickup 50 40 30"]
    pickup_read_parties [of "Authenticated 1" ex_db "ex_pickup 50 40 30"]
    pickup_read_parties [of "Authenticated 4" ex_db "ex_pickup 50 40 30"]
    pickup_read_parties [of Anon ex_db "ex_pickup 50 40 30"]
  by (simp add: is_volunteer_of_def is_charity_of_def is_donor_of_def owns_donation_def ex_defs)

text \<open>
  C3 as stated fails: user 9 is an admin and cannot read pickup 50.
\<close>

theorem admin_pickup_read_counterexample:
  "has_role ex_db 9 admin \<and>
   \<not> permitted pickups_policies SELECT (Authenticated 9) ex_db (ex_pickup 50 40 30)"
  by (simp add: has_role_def permitted_def pickups_policies_def volunteers_policies_def
        charities_policies_def organizations_policies_def donations_policies_def
        users_policies_def select_rows_def applies_def ex_defs del: set_filter)

text \<open>
  Claim C4, as amended. A write of a Donation row by a principal passes the
  policies exactly when the principal is the authenticated User of the
  Organization that the row names in \<open>organization_id\<close>; for an \<open>UPDATE\<close> this
  holds of the existing and of the new row. The role \<open>admin\<close> is granted nothing.
\<close>

theorem donation_write_owner:
  "(can_insert donations_policies p db d \<longleftrightarrow> (\<exists>x. p = Authenticated x \<and> owns_donation db x d)) \<and>
   (can_update donations_policies p db d d' \<longleftrightarrow>
      (\<exists>x. p = Authenticated x \<and> owns_donation db x d \<and> owns_donation db x d')) \<and>
   (can_delete donations_policies p db d \<longleftrightarrow> (\<exists>x. p = Authenticated x \<and> owns_donation db x d))"
  by (auto simp: can_insert_def can_update_def can_delete_def
        permitted_donations_write permitted_donations_select)

theorem donation_write_owner_witness:
  "can_insert donations_policies (Authenticated 1) ex_db (ex_donation 42 pending) \<and>
   can_update donations_policies (Authenticated 1) ex_db (ex_donation 40 assigned)
     (ex_donation 40 cancelled) \<and>
   \<not> can_delete donations_policies (Authenticated 2) ex_db (ex_donation 40 assigned)"
  using donation_write_owner [where p = "Authenticated 1" and db = ex_db
      and d = "ex_donation 42 pending"]
    donation_write_owner [where p = "Authenticated 1" and db = ex_db
      and d = "ex_donation 40 assigned" and d' = "ex_donation 40 cancelled"]
    donation_write_owner [where p = "Authenticated 2" and db = ex_db
      and d = "ex_donation 40 assigned"]
  by (simp add: owns_donation_def ex_defs)

text \<open>
  C4 as stated fails: user 9 is an admin, and every write of a donation of the
  organization of user 1 by user 9 is denied.
\<close>

theorem admin_donation_write_counterexample:
  "has_role ex_db 9 admin \<and>
   \<not> can_insert donations_policies (Authenticated 9) ex_db (ex_donation 42 pending) \<and>
   \<not> can_update donations_policies (Authenticated 9) ex_db (ex_donation 40 assigned)
       (ex_donation 40 cancelled) \<and>
   \<not> can_delete donations_policies (Authenticated 9) ex_db (ex_donation 40 assigned)"
  by (simp add: has_role_def can_insert_def can_update_def can_delete_def permitted_def
        donations_policies_def organizations_policies_def users_policies_def
        select_rows_def applies_def ex_defs del: set_filter)

text \<open>
  Claim C5, as amended. The migration declares the five values of
  \<open>donation_status\<close> and no edges between them: an \<open>UPDATE\<close> of a stored Donation by
  the User of its Organization that changes the status only is carried out for
  every old and every new status (\<open>NULL\<close> included), and no statement ends in an
  \<open>InvalidTransition\<close> error.
\<close>

theorem donation_status_update_unconstrained:
  assumes "fk_ok db" and "distinct (map don_id (donations db))"
    and "d \<in> set (donations db)" and "owns_donation db x d"
  shows "exec (RlsSubject (Authenticated x))
           (UpdateDonations (don_id d) (d\<lparr>don_status := s'\<rparr>)) db
         = Inr (db\<lparr>donations :=
             map (\<lambda>r. if don_id r = don_id d then d\<lparr>don_status := s'\<rparr> else r)
               (donations db)\<rparr>)"
proof -
  let ?p = "Authenticated x" and ?new = "d\<lparr>don_status := s'\<rparr>"
  let ?hit = "\<lambda>r. don_id r = don_id d \<and> passes donations_policies SELECT (RlsSubject ?p) db r
                  \<and> passes donations_policies UPDATE (RlsSubject ?p) db r"
  have old: "?hit d"
    using assms(4) by (simp add: permitted_donations_select permitted_donations_write)
  have new: "passes donations_policies UPDATE (RlsSubject ?p) db ?new"
    using assms(4) by (simp add: permitted_donations_write owns_donation_status)
  have "?hit r \<longleftrightarrow> don_id r = don_id d" if "r \<in> set (donations db)" for r
    using same_key_same_row [OF assms(2) that assms(3)] old by auto
  then have tbl: "map (\<lambda>r. if ?hit r then ?new else r) (donations db)
                = map (\<lambda>r. if don_id r = don_id d then ?new else r) (donations db)"
    by (intro map_cong) auto
  have ex: "list_ex ?hit (donations db)"
    using old assms(3) unfolding list_ex_iff by blast
  have upd: "dml_update donations_policies don_id (RlsSubject ?p) db (donations db)
               (don_id d) ?new
             = Inr (map (\<lambda>r. if don_id r = don_id d then ?new else r) (donations db))"
    unfolding dml_update_def Let_def using ex new tbl by simp
  have "fk_ok (db\<lparr>donations :=
           map (\<lambda>r. if don_id r = don_id d then ?new else r) (donations db)\<rparr>)"
    by (rule fk_ok_donations_update [OF assms(1,3)]) simp_all
  with upd show ?thesis by (simp add: commit_def)
qed

theorem donation_status_update_unconstrained_witness:
  "exec (RlsSubject (Authenticated 1)) (UpdateDonations 40 (ex_donation 40 delivered)) ex_db
     = Inr (ex_db\<lparr>donations := [ex_donation 40 delivered, ex_donation 41 delivered]\<rparr>)"
proof -
  have a: "fk_ok ex_db" by (rule fk_ok_ex_db)
  have b: "distinct (map don_id (donations ex_db))" by (simp add: ex_defs)
  have c: "ex_donation 40 assigned \<in> set (donations ex_db)" by (simp add: ex_defs)
  have d: "owns_donation ex_db 1 (ex_donation 40 assigned)"
    by (simp add: owns_donation_def ex_defs)
  show ?thesis
    using donation_status_update_unconstrained [OF a b c d, of "Some delivered"]
    by (simp add: ex_defs)
qed

text \<open>
  C5 as stated fails: donation 41 is \<open>delivered\<close>, a terminal state, and its
  donor sets it back to \<open>pending\<close>; the statement succeeds and the status changes.
\<close>

theorem donation_status_backwards_counterexample:
  "run ex_history empty_db = ex_db \<and>
   ex_donation 41 delivered \<in> set (donations ex_db) \<and>
   don_status (ex_donation 41 delivered) = Some delivered \<and>
   exec (RlsSubject (Authenticated 1)) (UpdateDonations 41 (ex_donation 41 pending)) ex_db
     = Inr (ex_db\<lparr>donations := [ex_donation 40 assigned, ex_donation 41 pending]\<rparr>) \<and>
   don_status (ex_donation 41 pending) = Some pending"
proof -
  have "exec (RlsSubject (Authenticated 1)) (UpdateDonations 41 (ex_donation 41 pending)) ex_db
     = Inr (ex_db\<lparr>donations := [ex_donation 40 assigned, ex_donation 41 pending]\<rparr>)"
    by (simp add: dml_update_def commit_def fk_ok_def ref_ok_def permitted_def
        donations_policies_def organizations_policies_def users_policies_def
        select_rows_def applies_def ex_defs del: set_filter)
  moreover have "ex_donation 41 delivered \<in> set (donations ex_db)"
    by (simp add: ex_db_def)
  ultimately show ?thesis
    by (simp add: ex_db_reachable ex_donation_def)
qed



text \<open>
  Claim C7. The role of a User never changes after the User is created: the only
  policy of \<open>users\<close> is a \<open>SELECT\<close> policy, so whatever statements principals run
  (the User itself and admins included), the table \<open>users\<close> stays as it was, and
  with it the role of every User.
\<close>

theorem users_role_immutable:
  "users (run (as_subjects cs) db) = users db \<and>
   has_role (run (as_subjects cs) db) x ro = has_role db x ro"
  by (simp add: has_role_def run_users)

theorem users_role_immutable_witness:
  "has_role (run (as_subjects
      [(Authenticated 3, UpdateUsers 3 (ex_user 3 admin)),
       (Authenticated 9, UpdateUsers 3 (ex_user 3 admin)),
       (Authenticated 3, DeleteUsers 3),
       (Anon, InsertUsers (ex_user 5 admin))]) ex_db) 3 volunteer \<and>
   \<not> has_role (run (as_subjects
      [(Authenticated 3, UpdateUsers 3 (ex_user 3 admin)),
       (Authenticated 9, UpdateUsers 3 (ex_user 3 admin)),
       (Authenticated 3, DeleteUsers 3),
       (Anon, InsertUsers (ex_user 5 admin))]) ex_db) 3 admin"
  using users_role_immutable [of "[(Authenticated 3, UpdateUsers 3 (ex_user 3 admin)),
       (Authenticated 9, UpdateUsers 3 (ex_user 3 admin)),
       (Authenticated 3, DeleteUsers 3),
       (Anon, InsertUsers (ex_user 5 admin))]" ex_db 3 volunteer]
    users_role_immutable [of "[(Authenticated 3, UpdateUsers 3 (ex_user 3 admin)),
       (Authenticated 9, UpdateUsers 3 (ex_user 3 admin)),
       (Authenticated 3, DeleteUsers 3),
       (Anon, InsertUsers (ex_user 5 admin))]" ex_db 3 admin]
  by (simp add: has_role_def ex_defs)

text \<open>
  Claim C8. ImpactMetric rows are keyed by date. From a state with at most one
  row per date (and one row per id, the primary key), no history of principals'
  statements reaches a state with two rows of one date, and recording a delivery
  keeps one row per date. When the table holds a row of the date, recording a
  delivery whose increments fit the columns succeeds and replaces that row by the
  incremented one: the rows keep their ids and dates, the rows of other dates
  are untouched and no row is added. When the table holds no row of the date,
  a successful recording adds one row of that date.
\<close>

theorem impact_metric_one_row_per_date:
  assumes "distinct (map im_date (impact_metrics db))"
    and "distinct (map im_id (impact_metrics db))"
  shows "distinct (map im_date (impact_metrics (run (as_subjects cs) db))) \<and>
         (\<forall>db'. record_delivery cfg today fresh now d db = Inr db' \<longrightarrow>
            distinct (map im_date (impact_metrics db')) \<and>
            distinct (map im_id (impact_metrics db')) \<and>
            filter (\<lambda>m. im_date m \<noteq> today) (impact_metrics db')
              = filter (\<lambda>m. im_date m \<noteq> today) (impact_metrics db) \<and>
            (if today \<in> set (map im_date (impact_metrics db))
             then map im_date (impact_metrics db') = map im_date (impact_metrics db) \<and>
                  map im_id (impact_metrics db') = map im_id (impact_metrics db)
             else map im_date (impact_metrics db') = map im_date (impact_metrics db) @ [today] \<and>
                  map im_id (impact_metrics db') = map im_id (impact_metrics db) @ [fresh])) \<and>
         (\<forall>m m'. fk_ok db \<and> m \<in> set (impact_metrics db) \<and> im_date m = today \<and>
                 add_delivery cfg d m = Inr m' \<longrightarrow>
            record_delivery cfg today fresh now d db
              = Inr (db\<lparr>impact_metrics :=
                  map (\<lambda>r. if im_date r = today then m' else r) (impact_metrics db)\<rparr>))"
proof -
  have principals: "distinct (map im_date (impact_metrics (run (as_subjects cs) db)))"
    using assms(1) by (simp add: run_impact_metrics)
  have keeps: "\<forall>db'. record_delivery cfg today fresh now d db = Inr db' \<longrightarrow>
            distinct (map im_date (impact_metrics db')) \<and>
            distinct (map im_id (impact_metrics db')) \<and>
            filter (\<lambda>m. im_date m \<noteq> today) (impact_metrics db')
              = filter (\<lambda>m. im_date m \<noteq> today) (impact_metrics db) \<and>
            (if today \<in> set (map im_date (impact_metrics db))
             then map im_date (impact_metrics db') = map im_date (impact_metrics db) \<and>
                  map im_id (impact_metrics db') = map im_id (impact_metrics db)
             else map im_date (impact_metrics db') = map im_date (impact_metrics db) @ [today] \<and>
                  map im_id (impact_metrics db') = map im_id (impact_metrics db) @ [fresh])"
    using record_delivery_keeps_dates [OF assms] by blast
  have updates: "\<forall>m m'. fk_ok db \<and> m \<in> set (impact_metrics db) \<and> im_date m = today \<and>
                 add_delivery cfg d m = Inr m' \<longrightarrow>
            record_delivery cfg today fresh now d db
              = Inr (db\<lparr>impact_metrics :=
                  map (\<lambda>r. if im_date r = today then m' else r) (impact_metrics db)\<rparr>)"
    using record_delivery_updates [OF assms] by blast
  show ?thesis
    by (rule conjI [OF principals conjI [OF keeps updates]])
qed

theorem impact_metric_one_row_per_date_witness:
  "distinct (map im_date (impact_metrics ex_db)) \<and>
   distinct (map im_id (impact_metrics ex_db)) \<and>
   record_delivery ex_config 100 61 900 (ex_donation 41 delivered) ex_db
     = Inr (ex_db\<lparr>impact_metrics :=
         [(ex_metric 60 100)\<lparr>im_meals_saved := Some 45,
            im_kg_food_saved := Some (Numeric_10_2 2000),
            im_co2_saved := Some (Numeric_10_2 800),
            im_beneficiaries_served := Some 10\<rparr>]\<rparr>) \<and>
   (\<exists>db'. record_delivery ex_config 101 61 900 (ex_donation 41 delivered) ex_db = Inr db' \<and>
      map im_date (impact_metrics db') = [100, 101] \<and>
      map im_id (impact_metrics db') = [60, 61])"
proof -
  have a: "distinct (map im_date (impact_metrics ex_db))" by (simp add: ex_defs)
  have b: "distinct (map im_id (impact_metrics ex_db))" by (simp add: ex_defs)
  have dates: "map im_date (impact_metrics ex_db) = [100]"
    and ids: "map im_id (impact_metrics ex_db) = [60]"
    by (simp_all add: ex_defs)
  note keeps = impact_metric_one_row_per_date
    [OF a b, THEN conjunct2, THEN conjunct1, rule_format]
  note updates = impact_metric_one_row_per_date
    [OF a b, THEN conjunct2, THEN conjunct2, rule_format]
  have add: "add_delivery ex_config (ex_donation 41 delivered) (ex_metric 60 100)
      = Inr ((ex_metric 60 100)\<lparr>im_meals_saved := Some 45,
            im_kg_food_saved := Some (Numeric_10_2 2000),
            im_co2_saved := Some (Numeric_10_2 800),
            im_beneficiaries_served := Some 10\<rparr>)"
    by (simp add: add_delivery_def ex_config_def int4_plus_def int4_in_def
        numeric_10_2_plus_def numeric_10_2_in_def numeric_10_2_val_def round_hundredths_def
        Numeric_10_2_inverse floor_divide_numeral_rat ex_donation_def ex_metric_def)
  have stored: "ex_metric 60 100 \<in> set (impact_metrics ex_db)" "im_date (ex_metric 60 100) = 100"
    by (simp_all add: ex_defs)
  have same: "record_delivery ex_config 100 61 900 (ex_donation 41 delivered) ex_db
     = Inr (ex_db\<lparr>impact_metrics :=
         [(ex_metric 60 100)\<lparr>im_meals_saved := Some 45,
            im_kg_food_saved := Some (Numeric_10_2 2000),
            im_co2_saved := Some (Numeric_10_2 800),
            im_beneficiaries_served := Some 10\<rparr>]\<rparr>)"
    using updates [of "ex_metric 60 100" 100 ex_config "ex_donation 41 delivered" _ 61 900]
      fk_ok_ex_db stored add
    by (simp add: ex_db_def ex_metric_def)
  have "map im_date (impact_metrics db') = [100, 101] \<and>
      map im_id (impact_metrics db') = [60, 61]"
    if "record_delivery ex_config 101 61 900 (ex_donation 41 delivered) ex_db = Inr db'" for db'
    using keeps [OF that] dates ids by simp
  then show ?thesis
    using a b same record_delivery_new_date by blast
qed

text \<open>
  Claim C9, as amended. The enum value sets are closed. A text is accepted as a
  \<open>donation_status\<close> exactly when it is one of \<open>pending\<close>, \<open>assigned\<close>, \<open>picked_up\<close>,
  \<open>delivered\<close>, \<open>cancelled\<close>, and as a \<open>food_type\<close> exactly when it is one of
  \<open>prepared_meals\<close>, \<open>groceries\<close>, \<open>produce\<close>, \<open>bakery\<close>, \<open>other\<close>; each label
  gives its own value and any other text is refused with an error. After every
  history, every stored Donation has a food type that is one of the five, and a
  status that is one of the five or \<open>NULL\<close>: the column \<open>status\<close> is nullable.
\<close>

theorem enum_value_sets_closed_or_null:
  "(\<forall>s. (\<exists>v. donation_status_in s = Inr v) \<longleftrightarrow>
        s \<in> {''pending'', ''assigned'', ''picked_up'', ''delivered'', ''cancelled''}) \<and>
   (\<forall>s. (\<exists>v. food_type_in s = Inr v) \<longleftrightarrow>
        s \<in> {''prepared_meals'', ''groceries'', ''produce'', ''bakery'', ''other''}) \<and>
   (\<forall>s. s \<notin> {''pending'', ''assigned'', ''picked_up'', ''delivered'', ''cancelled''} \<longrightarrow>
        donation_status_in s = Inl InvalidEnumInput) \<and>
   (\<forall>s. s \<notin> {''prepared_meals'', ''groceries'', ''produce'', ''bakery'', ''other''} \<longrightarrow>
        food_type_in s = Inl InvalidEnumInput) \<and>
   map donation_status_in [''pending'', ''assigned'', ''picked_up'', ''delivered'', ''cancelled'']
     = map Inr [pending, assigned, picked_up, delivered, cancelled] \<and>
   map food_type_in [''prepared_meals'', ''groceries'', ''produce'', ''bakery'', ''other'']
     = map Inr [prepared_meals, groceries, produce, bakery, other] \<and>
   (\<forall>d \<in> set (donations (run cs db)).
      don_status d \<in> {None, Some pending, Some assigned, Some picked_up, Some delivered,
                       Some cancelled} \<and>
      don_food_type d \<in> {prepared_meals, groceries, produce, bakery, other})"
proof -
  have a: "(\<exists>v. donation_status_in s = Inr v) \<longleftrightarrow>
        s \<in> {''pending'', ''assigned'', ''picked_up'', ''delivered'', ''cancelled''}" for s
    by (simp add: donation_status_in_def enum_in_def donation_status_labels_def)
  have b: "(\<exists>v. food_type_in s = Inr v) \<longleftrightarrow>
        s \<in> {''prepared_meals'', ''groceries'', ''produce'', ''bakery'', ''other''}" for s
    by (simp add: food_type_in_def enum_in_def food_type_labels_def)
  have c: "s \<notin> {''pending'', ''assigned'', ''picked_up'', ''delivered'', ''cancelled''} \<longrightarrow>
        donation_status_in s = Inl InvalidEnumInput" for s
    by (simp add: donation_status_in_def enum_in_def donation_status_labels_def)
  have d: "s \<notin> {''prepared_meals'', ''groceries'', ''produce'', ''bakery'', ''other''} \<longrightarrow>
        food_type_in s = Inl InvalidEnumInput" for s
    by (simp add: food_type_in_def enum_in_def food_type_labels_def)
  have e: "map donation_status_in
             [''pending'', ''assigned'', ''picked_up'', ''delivered'', ''cancelled'']
           = map Inr [pending, assigned, picked_up, delivered, cancelled]"
    by (simp add: donation_status_in_def enum_in_def donation_status_labels_def)
  have f: "map food_type_in [''prepared_meals'', ''groceries'', ''produce'', ''bakery'', ''other'']
           = map Inr [prepared_meals, groceries, produce, bakery, other]"
    by (simp add: food_type_in_def enum_in_def food_type_labels_def)
  have g: "st \<in> {None, Some pending, Some assigned, Some picked_up, Some delivered,
                  Some cancelled}" for st :: "donation_status option"
  proof (cases st)
    case None
    then show ?thesis by simp
  next
    case (Some v)
    then show ?thesis by (cases v) simp_all
  qed
  have h: "t \<in> {prepared_meals, groceries, produce, bakery, other}" for t :: food_type
    by (cases t) simp_all
  show ?thesis
    apply (intro conjI allI ballI)
           apply (rule a)
          apply (rule b)
         apply (rule c)
        apply (rule d)
       apply (rule e)
      apply (rule f)
     apply (rule g)
    apply (rule h)
    done
qed

theorem enum_value_sets_closed_or_null_witness:
  "(\<exists>v. donation_status_in ''delivered'' = Inr v) \<and>
   donation_status_in ''expired'' = Inl InvalidEnumInput \<and>
   food_type_in ''frozen'' = Inl InvalidEnumInput \<and>
   ex_donation 41 delivered \<in> set (donations (run [] ex_db)) \<and>
   don_status (ex_donation 41 delivered)
     \<in> {None, Some pending, Some assigned, Some picked_up, Some delivered, Some cancelled} \<and>
   don_food_type (ex_donation 41 delivered)
     \<in> {prepared_meals, groceries, produce, bakery, other}"
proof -
  note dst = enum_value_sets_closed_or_null [THEN conjunct1, rule_format]
  note bad = enum_value_sets_closed_or_null
    [THEN conjunct2, THEN conjunct2, THEN conjunct1, rule_format]
  note bad' = enum_value_sets_closed_or_null
    [THEN conjunct2, THEN conjunct2, THEN conjunct2, THEN conjunct1, rule_format]
  note rows = enum_value_sets_closed_or_null
    [THEN conjunct2, THEN conjunct2, THEN conjunct2, THEN conjunct2, THEN conjunct2,
     THEN conjunct2, rule_format]
  have 1: "\<exists>v. donation_status_in ''delivered'' = Inr v"
    using dst [of "''delivered''"] by simp
  have 2: "donation_status_in ''expired'' = Inl InvalidEnumInput"
    by (rule bad) simp
  have 3: "food_type_in ''frozen'' = Inl InvalidEnumInput"
    by (rule bad') simp
  have 4: "ex_donation 41 delivered \<in> set (donations (run [] ex_db))"
    by (simp add: run_def ex_db_def)
  show ?thesis
    using 1 2 3 4 rows [OF 4] by blast
qed

text \<open>
  C9 as stated fails: the donor of donation 40 sets its status to \<open>NULL\<close>; the
  statement succeeds, and the stored status is none of the five values.
\<close>

theorem null_status_counterexample:
  "run ex_history empty_db = ex_db \<and>
   exec (RlsSubject (Authenticated 1))
     (UpdateDonations 40 ((ex_donation 40 assigned)\<lparr>don_status := None\<rparr>)) ex_db
     = Inr (ex_db\<lparr>donations :=
         [(ex_donation 40 assigned)\<lparr>don_status := None\<rparr>, ex_donation 41 delivered]\<rparr>) \<and>
   don_status ((ex_donation 40 assigned)\<lparr>don_status := None\<rparr>)
     \<notin> {Some pending, Some assigned, Some picked_up, Some delivered, Some cancelled}"
proof -
  have "exec (RlsSubject (Authenticated 1))
     (UpdateDonations 40 ((ex_donation 40 assigned)\<lparr>don_status := None\<rparr>)) ex_db
     = Inr (ex_db\<lparr>donations :=
         [(ex_donation 40 assigned)\<lparr>don_status := None\<rparr>, ex_donation 41 delivered]\<rparr>)"
    by (simp add: dml_update_def commit_def fk_ok_def ref_ok_def permitted_def
        donations_policies_def organizations_policies_def users_policies_def
        select_rows_def applies_def ex_defs del: set_filter)
  then show ?thesis
    by (simp add: ex_db_reachable)
qed

text \<open>
  Claim C10. A principal can read a row of \<open>users\<close> only when the principal's id
  is the id of the row: the only policy of the table is the \<open>SELECT\<close> policy
  \<open>auth.uid() = id\<close>. So a \<open>SELECT\<close> on \<open>users\<close> returns the caller's own row and
  nothing else, for an admin as for everyone.
\<close>

theorem users_read_own_row_only:
  "(permitted users_policies SELECT p db u \<longleftrightarrow> p = Authenticated (u_id u)) \<and>
   select_rows users_policies p db (users db) =
     filter (\<lambda>u. p = Authenticated (u_id u)) (users db)"
proof -
  have "permitted users_policies SELECT p db r \<longleftrightarrow> p = Authenticated (u_id r)" for r
    by (cases p) (auto simp: permitted_users)
  then have "permitted users_policies SELECT p db = (\<lambda>u. p = Authenticated (u_id u))"
    by (simp add: fun_eq_iff)
  then show ?thesis by (simp add: select_rows_def)
qed

theorem users_read_own_row_only_witness:
  "has_role ex_db 9 admin \<and>
   \<not> permitted users_policies SELECT (Authenticated 9) ex_db (ex_user 1 donor) \<and>
   permitted users_policies SELECT (Authenticated 9) ex_db (ex_user 9 admin) \<and>
   select_rows users_policies (Authenticated 9) ex_db (users ex_db) = [ex_user 9 admin]"
  using users_read_own_row_only [of "Authenticated 9" ex_db "ex_user 1 donor"]
    users_read_own_row_only [of "Authenticated 9" ex_db "ex_user 9 admin"]
  by (simp add: has_role_def ex_defs)

end
